theory Spec2Isabelle
  imports Main "HOL-Library.Word"
begin

section \<open>Data model of \<^verbatim>\<open>world/provider.go\<close>\<close>

text \<open>
  The file \<^verbatim>\<open>provider.go\<close> declares the interface \<^verbatim>\<open>Provider\<close> and one
  implementation of it, \<^verbatim>\<open>NoIOProvider\<close>. The types its signatures mention
  (\<^verbatim>\<open>ChunkPos\<close>, \<^verbatim>\<open>BlockPos\<close>, \<^verbatim>\<open>Entity\<close>, \<^verbatim>\<open>chunk.Chunk\<close>,
  \<^verbatim>\<open>gamemode.GameMode\<close>) are declared in other files of the repository.
\<close>

text \<open>
  Modelled from the spec: the declaration of \<^verbatim>\<open>ChunkPos\<close> is missing. The spec calls
  it an integer pair \<open>(x, z)\<close> identifying a chunk column.
\<close>

type_synonym ChunkPos = "int \<times> int"

text \<open>
  Modelled from the spec: the declaration of \<^verbatim>\<open>BlockPos\<close> is missing. The spec calls
  the spawn position a 3D integer point; the composite literal \<^verbatim>\<open>BlockPos{0, 30, 0}\<close>
  of the source gives its three components in the order \<open>x\<close>, \<open>y\<close>, \<open>z\<close>.
\<close>

type_synonym BlockPos = "int \<times> int \<times> int"

definition pos_x :: "BlockPos \<Rightarrow> int" where
  "pos_x b = fst b"

definition pos_y :: "BlockPos \<Rightarrow> int" where
  "pos_y b = fst (snd b)"

definition pos_z :: "BlockPos \<Rightarrow> int" where
  "pos_z b = snd (snd b)"

text \<open>
  Modelled from the spec: the package \<^verbatim>\<open>gamemode\<close> is missing. The spec calls the
  game mode a closed enumeration of the variants Survival, Creative, Adventure and
  Spectator; \<^verbatim>\<open>gamemode.Adventure{}\<close> of the source is the third.
\<close>

datatype GameMode = Survival | Creative | Adventure | Spectator

text \<open>
  Go's built-in \<^verbatim>\<open>error\<close> is an interface value: \<^verbatim>\<open>nil\<close> or an error carrying a
  message. A value of type \<open>error option\<close> stands for it, \<open>None\<close> being \<^verbatim>\<open>nil\<close>.
\<close>

datatype error = Error string

text \<open>Go's \<^verbatim>\<open>int64\<close>.\<close>

type_synonym int64 = "64 word"

text \<open>
  A chunk (\<^verbatim>\<open>chunk.Chunk\<close>) and an entity (\<^verbatim>\<open>Entity\<close>) are opaque to this file: no
  method looks inside one. They are the type parameters \<open>'chunk\<close> and \<open>'entity\<close>.
  The pointer \<^verbatim>\<open>*chunk.Chunk\<close> is a \<open>'chunk option\<close>, \<open>None\<close> being \<^verbatim>\<open>nil\<close>. A slice
  \<^verbatim>\<open>[]Entity\<close> is either the \<^verbatim>\<open>nil\<close> slice or a slice holding a list of elements.
\<close>

datatype 'a slice = NilSlice | Slice "'a list"

text \<open>Go's \<^verbatim>\<open>len\<close> on a slice: the \<^verbatim>\<open>nil\<close> slice has length 0.\<close>

fun len :: "'a slice \<Rightarrow> nat" where
  "len NilSlice = 0"
| "len (Slice xs) = length xs"

text \<open>The elements a \<^verbatim>\<open>range\<close> loop over the slice visits, in order.\<close>

fun elems :: "'a slice \<Rightarrow> 'a list" where
  "elems NilSlice = []"
| "elems (Slice xs) = xs"

text \<open>\<^verbatim>\<open>type NoIOProvider struct{}\<close>: a struct with no field, so with one value.\<close>

datatype NoIOProvider = NoIOProvider

section \<open>The methods of \<^verbatim>\<open>NoIOProvider\<close>\<close>

text \<open>
  Every method has the value receiver \<open>p\<close>. A method that returns a value is a function
  to that value. A method of the interface that writes (\<^verbatim>\<open>Set...\<close>, \<^verbatim>\<open>Save...\<close>) or
  releases (\<^verbatim>\<open>Close\<close>) returns, besides its Go result, the provider as it is after the
  call: the bodies are empty or a single \<^verbatim>\<open>return\<close>, so that is \<open>p\<close> itself.
\<close>

definition DefaultGameMode :: "NoIOProvider \<Rightarrow> GameMode" where
  "DefaultGameMode p = Adventure"

definition SetDefaultGameMode :: "NoIOProvider \<Rightarrow> GameMode \<Rightarrow> NoIOProvider" where
  "SetDefaultGameMode p mode = p"

definition SetWorldSpawn :: "NoIOProvider \<Rightarrow> BlockPos \<Rightarrow> NoIOProvider" where
  "SetWorldSpawn p pos = p"

definition SaveTimeCycle :: "NoIOProvider \<Rightarrow> bool \<Rightarrow> NoIOProvider" where
  "SaveTimeCycle p running = p"

definition LoadTimeCycle :: "NoIOProvider \<Rightarrow> bool" where
  "LoadTimeCycle p = True"

definition LoadTime :: "NoIOProvider \<Rightarrow> int64" where
  "LoadTime p = 0"

definition SaveTime :: "NoIOProvider \<Rightarrow> int64 \<Rightarrow> NoIOProvider" where
  "SaveTime p time = p"

definition LoadEntities :: "NoIOProvider \<Rightarrow> ChunkPos \<Rightarrow> 'entity slice \<times> error option" where
  "LoadEntities p position = (NilSlice, None)"

definition SaveEntities ::
  "NoIOProvider \<Rightarrow> ChunkPos \<Rightarrow> 'entity slice \<Rightarrow> error option \<times> NoIOProvider" where
  "SaveEntities p position entities = (None, p)"

definition SaveChunk ::
  "NoIOProvider \<Rightarrow> ChunkPos \<Rightarrow> 'chunk option \<Rightarrow> error option \<times> NoIOProvider" where
  "SaveChunk p position c = (None, p)"

definition LoadChunk :: "NoIOProvider \<Rightarrow> ChunkPos \<Rightarrow> 'chunk option \<times> bool \<times> error option" where
  "LoadChunk p position = (None, False, None)"

definition WorldName :: "NoIOProvider \<Rightarrow> string" where
  "WorldName p = ''''"

definition SetWorldName :: "NoIOProvider \<Rightarrow> string \<Rightarrow> NoIOProvider" where
  "SetWorldName p name = p"

definition WorldSpawn :: "NoIOProvider \<Rightarrow> BlockPos" where
  "WorldSpawn p = (0, 30, 0)"

definition Close :: "NoIOProvider \<Rightarrow> error option \<times> NoIOProvider" where
  "Close p = (None, p)"

section \<open>The interface \<^verbatim>\<open>Provider\<close> and sequences of calls\<close>

text \<open>
  The method set of \<^verbatim>\<open>Provider\<close>, in the order of the interface declaration
  (\<^verbatim>\<open>io.Closer\<close> first): a call is a method with its arguments.
\<close>

datatype ('chunk, 'entity) call =
    CallClose
  | CallWorldName
  | CallSetWorldName string
  | CallWorldSpawn
  | CallSetWorldSpawn BlockPos
  | CallLoadChunk ChunkPos
  | CallSaveChunk ChunkPos "'chunk option"
  | CallLoadEntities ChunkPos
  | CallSaveEntities ChunkPos "'entity slice"
  | CallLoadTime
  | CallSaveTime int64
  | CallSaveTimeCycle bool
  | CallLoadTimeCycle
  | CallDefaultGameMode
  | CallSetDefaultGameMode GameMode

text \<open>What a call returns to its caller, by the result type of the method.\<close>

datatype ('chunk, 'entity) result =
    RetVoid
  | RetError "error option"
  | RetString string
  | RetBlockPos BlockPos
  | RetChunk "'chunk option \<times> bool \<times> error option"
  | RetEntities "'entity slice \<times> error option"
  | RetInt64 int64
  | RetBool bool
  | RetGameMode GameMode

text \<open>
  Dynamic dispatch of a call on a \<^verbatim>\<open>NoIOProvider\<close>: the result of the method and the
  provider after it. A method that only reads leaves the provider as it was.
\<close>

fun invoke ::
  "NoIOProvider \<Rightarrow> ('chunk, 'entity) call \<Rightarrow> ('chunk, 'entity) result \<times> NoIOProvider" where
  "invoke p CallClose = (RetError (fst (Close p)), snd (Close p))"
| "invoke p CallWorldName = (RetString (WorldName p), p)"
| "invoke p (CallSetWorldName name) = (RetVoid, SetWorldName p name)"
| "invoke p CallWorldSpawn = (RetBlockPos (WorldSpawn p), p)"
| "invoke p (CallSetWorldSpawn pos) = (RetVoid, SetWorldSpawn p pos)"
| "invoke p (CallLoadChunk position) = (RetChunk (LoadChunk p position), p)"
| "invoke p (CallSaveChunk position c) =
     (RetError (fst (SaveChunk p position c)), snd (SaveChunk p position c))"
| "invoke p (CallLoadEntities position) = (RetEntities (LoadEntities p position), p)"
| "invoke p (CallSaveEntities position entities) =
     (RetError (fst (SaveEntities p position entities)), snd (SaveEntities p position entities))"
| "invoke p CallLoadTime = (RetInt64 (LoadTime p), p)"
| "invoke p (CallSaveTime time) = (RetVoid, SaveTime p time)"
| "invoke p (CallSaveTimeCycle running) = (RetVoid, SaveTimeCycle p running)"
| "invoke p CallLoadTimeCycle = (RetBool (LoadTimeCycle p), p)"
| "invoke p CallDefaultGameMode = (RetGameMode (DefaultGameMode p), p)"
| "invoke p (CallSetDefaultGameMode mode) = (RetVoid, SetDefaultGameMode p mode)"

text \<open>The provider after a sequence of calls, made one after the other.\<close>

fun run :: "NoIOProvider \<Rightarrow> ('chunk, 'entity) call list \<Rightarrow> NoIOProvider" where
  "run p [] = p"
| "run p (c # cs) = run (snd (invoke p c)) cs"

text \<open>The results of a sequence of calls, in the order of the calls.\<close>

fun results ::
  "NoIOProvider \<Rightarrow> ('chunk, 'entity) call list \<Rightarrow> ('chunk, 'entity) result list" where
  "results p [] = []"
| "results p (c # cs) = fst (invoke p c) # results (snd (invoke p c)) cs"

text \<open>\<^verbatim>\<open>Close\<close> called \<open>n\<close> times in a row: the errors returned and the provider left.\<close>

fun close_times :: "nat \<Rightarrow> NoIOProvider \<Rightarrow> error option list \<times> NoIOProvider" where
  "close_times 0 p = ([], p)"
| "close_times (Suc n) p =
     (fst (Close p) # fst (close_times n (snd (Close p))), snd (close_times n (snd (Close p))))"

text \<open>
  The operations that write to a backend: the seven methods of the interface named
  \<^verbatim>\<open>Save...\<close> or \<^verbatim>\<open>Set...\<close>.
\<close>

fun is_save :: "('chunk, 'entity) call \<Rightarrow> bool" where
  "is_save (CallSetWorldName name) = True"
| "is_save (CallSetWorldSpawn pos) = True"
| "is_save (CallSaveChunk position c) = True"
| "is_save (CallSaveEntities position entities) = True"
| "is_save (CallSaveTime time) = True"
| "is_save (CallSaveTimeCycle running) = True"
| "is_save (CallSetDefaultGameMode mode) = True"
| "is_save _ = False"

text \<open>
  The three outcomes the doc comment of \<^verbatim>\<open>Provider.LoadChunk\<close> permits: a chunk, found
  and no error; no chunk, not found and no error; no chunk, found and an error. Every other
  combination is not permitted.
\<close>

fun permitted :: "'chunk option \<times> bool \<times> error option \<Rightarrow> bool" where
  "permitted (Some c, True, None) = True"
| "permitted (None, False, None) = True"
| "permitted (None, True, Some e) = True"
| "permitted _ = False"

section \<open>The provider keeps no state\<close>

lemma invoke_provider: "snd (invoke p c) = p"
  by (cases c)
    (simp_all add: Close_def SetWorldName_def SetWorldSpawn_def SaveChunk_def
      SaveEntities_def SaveTime_def SaveTimeCycle_def SetDefaultGameMode_def)

lemma run_provider: "run p cs = p"
  by (induction cs arbitrary: p) (simp_all add: invoke_provider)

lemma invoke_same_result: "fst (invoke p c) = fst (invoke q c)"
  by (cases c)
    (simp_all add: Close_def WorldName_def WorldSpawn_def LoadChunk_def SaveChunk_def
      LoadEntities_def SaveEntities_def LoadTime_def LoadTimeCycle_def DefaultGameMode_def)

lemma results_same_provider: "results p cs = results q cs"
proof (induction cs arbitrary: p q)
  case Nil
  show ?case by simp
next
  case (Cons c cs)
  have "fst (invoke p c) = fst (invoke q c)"
    by (rule invoke_same_result)
  moreover have "results (snd (invoke p c)) cs = results (snd (invoke q c)) cs"
    by (rule Cons.IH)
  ultimately show ?case by simp
qed

lemma close_times_errors: "fst (close_times n p) = replicate n None"
  by (induction n arbitrary: p) (simp_all add: Close_def)

lemma permitted_no_chunk_with_error: "permitted (Some c, b, Some e) = False"
  by (cases b) simp_all

section \<open>The claims\<close>

text \<open>
  C1. For every chunk position, \<^verbatim>\<open>NoIOProvider.LoadChunk\<close> returns a nil chunk,
  \<open>exists = false\<close> and a nil error (the not-found outcome), also right after a
  \<^verbatim>\<open>SaveChunk\<close> on that position and after any sequence of calls, which may hold
  \<^verbatim>\<open>SaveChunk\<close> calls on that position.
\<close>

theorem LoadChunk_always_not_found:
  "LoadChunk p position = (None, False, None) \<and>
   LoadChunk (snd (SaveChunk p position c)) position = (None, False, None) \<and>
   LoadChunk (run p cs) position = (None, False, None)"
  by (simp add: LoadChunk_def)

text \<open>
  C2. For every chunk position, the result of \<^verbatim>\<open>NoIOProvider.LoadChunk\<close> is one of the
  three permitted outcomes; in particular it is never a non-nil chunk together with a
  non-nil error.
\<close>

theorem LoadChunk_result_permitted:
  "permitted (LoadChunk p position) \<and>
   \<not> (fst (LoadChunk p position) \<noteq> None \<and> snd (snd (LoadChunk p position)) \<noteq> None)"
  by (simp add: LoadChunk_def)

text \<open>
  C3. For \<^verbatim>\<open>NoIOProvider\<close>, after any save operation \<open>s\<close> (\<^verbatim>\<open>SaveChunk\<close>,
  \<^verbatim>\<open>SaveEntities\<close>, \<^verbatim>\<open>SaveTime\<close>, \<^verbatim>\<open>SaveTimeCycle\<close>, \<^verbatim>\<open>SetWorldSpawn\<close>,
  \<^verbatim>\<open>SetWorldName\<close>, \<^verbatim>\<open>SetDefaultGameMode\<close>) every operation \<open>l\<close> returns what it
  returns when the save has not been made, and every load returns its fixed default or
  not-found.
\<close>

theorem save_then_load_as_if_no_save:
  fixes s l :: "('chunk, 'entity) call"
  assumes "is_save s"
  shows "fst (invoke (snd (invoke p s)) l) = fst (invoke p l) \<and>
    WorldName (snd (invoke p s)) = '''' \<and>
    WorldSpawn (snd (invoke p s)) = (0, 30, 0) \<and>
    LoadChunk (snd (invoke p s)) position = (None :: 'chunk option, False, None) \<and>
    elems (fst (LoadEntities (snd (invoke p s)) position)) = ([] :: 'entity list) \<and>
    snd (LoadEntities (snd (invoke p s)) position :: 'entity slice \<times> error option) = None \<and>
    LoadTime (snd (invoke p s)) = 0 \<and>
    LoadTimeCycle (snd (invoke p s)) = True \<and>
    DefaultGameMode (snd (invoke p s)) = Adventure"
proof -
  have "fst (invoke (snd (invoke p s)) l) = fst (invoke p l)"
    by (rule invoke_same_result)
  then show ?thesis
    by (simp add: WorldName_def WorldSpawn_def LoadChunk_def LoadEntities_def LoadTime_def
        LoadTimeCycle_def DefaultGameMode_def)
qed

theorem save_then_load_as_if_no_save_witness:
  "is_save (CallSaveChunk (0, 0) (Some ''A'') :: (string, string) call) \<and>
   fst (invoke (snd (invoke NoIOProvider (CallSaveChunk (0, 0) (Some ''A''))))
     (CallLoadChunk (0, 0) :: (string, string) call)) =
   fst (invoke NoIOProvider (CallLoadChunk (0, 0))) \<and>
   LoadChunk (snd (invoke NoIOProvider (CallSaveChunk (0, 0) (Some ''A'') :: (string, string) call)))
     (0, 0) = (None :: string option, False, None)"
proof -
  have h: "is_save (CallSaveChunk (0, 0) (Some ''A'') :: (string, string) call)"
    by simp
  show ?thesis
    using h save_then_load_as_if_no_save [OF h, of NoIOProvider "CallLoadChunk (0, 0)" "(0, 0)"]
    by (simp add: SaveChunk_def)
qed

text \<open>
  C4, as the spec states it: \<^verbatim>\<open>SaveChunk(p, c)\<close> followed by \<^verbatim>\<open>LoadChunk(p)\<close> returns
  a chunk equal to \<open>c\<close>, \<open>exists = true\<close> and no error. On \<^verbatim>\<open>NoIOProvider\<close> this fails:
  saving the chunk \<open>A\<close> at \<open>(0, 0)\<close> and loading \<open>(0, 0)\<close> does not give \<open>A\<close>.
\<close>

theorem SaveChunk_LoadChunk_round_trip_counterexample:
  "LoadChunk (snd (SaveChunk NoIOProvider (0, 0) (Some ''A''))) (0, 0) \<noteq> (Some ''A'', True, None)"
  by (simp add: LoadChunk_def)

text \<open>
  C4, amended: for every chunk \<open>c\<close> and every position, \<^verbatim>\<open>NoIOProvider.SaveChunk\<close>
  returns a nil error and discards the chunk: the \<^verbatim>\<open>LoadChunk\<close> on the same position
  that follows returns a nil chunk, \<open>exists = false\<close> and a nil error.
\<close>

theorem SaveChunk_then_LoadChunk_not_found:
  "fst (SaveChunk p position c) = None \<and>
   LoadChunk (snd (SaveChunk p position c)) position = (None, False, None)"
  by (simp add: SaveChunk_def LoadChunk_def)

text \<open>
  C5. For every chunk position, \<^verbatim>\<open>NoIOProvider.LoadEntities\<close> returns an empty entity
  list (a slice of length 0, with no element) and a nil error, and
  \<^verbatim>\<open>NoIOProvider.SaveEntities\<close> returns a nil error for every position and entity list.
\<close>

theorem entities_empty_and_no_error:
  "len (fst (LoadEntities p position)) = 0 \<and>
   elems (fst (LoadEntities p position)) = [] \<and>
   snd (LoadEntities p position) = None \<and>
   fst (SaveEntities p position' entities) = None"
  by (simp add: LoadEntities_def SaveEntities_def)

text \<open>
  C6. The metadata loads of \<^verbatim>\<open>NoIOProvider\<close> return fixed defaults: \<^verbatim>\<open>LoadTimeCycle\<close>
  returns true, \<^verbatim>\<open>LoadTime\<close> returns 0, \<^verbatim>\<open>WorldSpawn\<close> returns one fixed position,
  whose y-coordinate is greater than 0, and \<^verbatim>\<open>DefaultGameMode\<close> returns Adventure.
\<close>

theorem metadata_defaults:
  "LoadTimeCycle p = True \<and>
   LoadTime p = 0 \<and>
   0 < pos_y (WorldSpawn p) \<and>
   WorldSpawn p = WorldSpawn q \<and>
   DefaultGameMode p = Adventure"
  by (simp add: LoadTimeCycle_def LoadTime_def WorldSpawn_def pos_y_def DefaultGameMode_def)

text \<open>
  C7. \<^verbatim>\<open>NoIOProvider.Close\<close> returns a nil error, on any provider and after any
  sequence of calls, and \<open>n\<close> calls of it in a row return \<open>n\<close> nil errors.
\<close>

theorem Close_always_succeeds:
  "fst (Close p) = None \<and>
   fst (Close (run p cs)) = None \<and>
   fst (close_times n p) = replicate n None"
  by (simp add: Close_def close_times_errors)

text \<open>
  C8. Every operation of \<^verbatim>\<open>NoIOProvider\<close> is deterministic and independent of the
  history: the same call returns the same result after any two sequences of calls, a call
  leaves the provider as it was, and the same sequence of calls returns the same results
  after any two sequences of calls.
\<close>

theorem invoke_history_independent:
  "fst (invoke (run p cs) c) = fst (invoke (run q ds) c) \<and>
   snd (invoke p c) = p \<and>
   results (run p cs) es = results (run q ds) es"
  using invoke_same_result [of "run p cs" c "run q ds"]
    results_same_provider [of "run p cs" es "run q ds"]
  by (simp add: invoke_provider)

text \<open>C9. \<^verbatim>\<open>NoIOProvider.WorldSpawn\<close> returns the block position \<open>(0, 30, 0)\<close>.\<close>

theorem WorldSpawn_is_0_30_0:
  "WorldSpawn p = (0, 30, 0) \<and>
   pos_x (WorldSpawn p) = 0 \<and> pos_y (WorldSpawn p) = 30 \<and> pos_z (WorldSpawn p) = 0"
  by (simp add: WorldSpawn_def pos_x_def pos_y_def pos_z_def)

text \<open>
  C10. \<^verbatim>\<open>NoIOProvider.WorldName\<close> returns the empty string, also right after a
  \<^verbatim>\<open>SetWorldName\<close> and after any sequence of calls.
\<close>

theorem WorldName_always_empty:
  "WorldName p = '''' \<and>
   WorldName (SetWorldName p name) = '''' \<and>
   WorldName (run p cs) = ''''"
  by (simp add: WorldName_def)

end
